theory Spec2Isabelle
  imports Complex_Main
begin

section \<open>The report notebook \<^verbatim>\<open>report/report.ipynb\<close>\<close>

text \<open>
  The repository is one Jupyter notebook: nine markdown cells and one code cell.  The
  development embeds
  \<^item> the text of the file, line by line, and a reader for the notebook layout (cells,
    JSON strings);
  \<^item> readers for what the markdown cells hold (pipe tables, bullet lists, image
    links), the two result tables and the label list as data, and the metric formula
    the report states, on exact rationals;
  \<^item> the code cell: a reader for its statements, the statements as a list, and an
    interpreter over the kernel session with Python's exceptions as values.
\<close>

subsection \<open>The text of the file\<close>

text \<open>
  \<open>report_ipynb\<close> is the file as the list of its lines: the text split at its newline
  characters (the last line, \<open>}\<close>, ends the file without one).  A string literal cannot
  hold a backslash, so \<open>bs\<close> stands for it; \<open>sq\<close> is a single quote where one ends a
  literal.  The lines are grouped as the file is laid out: two opening lines, one block
  per cell, and the notebook metadata.
\<close>

abbreviation bs :: char where
  "bs \<equiv> CHR 0x5C"

abbreviation sq :: char where
  "sq \<equiv> CHR 0x27"

text \<open>Lines 1 to 2 of the file.\<close>

definition nb_preamble :: "string list" where
  \<open>nb_preamble =
    [''{'',
     '' "cells": ['']\<close>

text \<open>Lines 3 to 9 of the file.\<close>

definition nb_cell_0 :: "string list" where
  \<open>nb_cell_0 =
    [''  {'',
     ''   "cell_type": "markdown",'',
     ''   "metadata": {},'',
     ''   "source": ['',
     ''    "# Project - Name Entity Recognition using BERT"'',
     ''   ]'',
     ''  },'']\<close>

text \<open>Lines 10 to 16 of the file.\<close>

definition nb_cell_1 :: "string list" where
  \<open>nb_cell_1 =
    [''  {'',
     ''   "cell_type": "markdown",'',
     ''   "metadata": {},'',
     ''   "source": ['',
     ''    "'' @ bs # bs # ''break"'',
     ''   ]'',
     ''  },'']\<close>

text \<open>Lines 17 to 38 of the file.\<close>

definition nb_cell_2 :: "string list" where
  \<open>nb_cell_2 =
    [''  {'',
     ''   "cell_type": "code",'',
     ''   "execution_count": 17,'',
     ''   "metadata": {},'',
     ''   "outputs": [],'',
     ''   "source": ['',
     ''    "%config InlineBackend.figure_formats = ['svg']'' @ bs # ''n",'',
     ''    "'' @ bs # ''n",'',
     ''    "import pandas as pd'' @ bs # ''n",'',
     ''    "import numpy as np'' @ bs # ''n",'',
     ''    "'' @ bs # ''n",'',
     ''    "import matplotlib.pyplot as plt'' @ bs # ''n",'',
     ''    "from matplotlib.image import imread'' @ bs # ''n",'',
     ''    "import seaborn as sns'' @ bs # ''n",'',
     ''    "'' @ bs # ''n",'',
     ''    "plt.rcParams['font.family'] = 'Latin Modern Roman'' @ sq # bs # ''n",'',
     ''    "'' @ bs # ''n",'',
     ''    "DPI = 800'' @ bs # ''n",'',
     ''    "'' @ bs # ''n",'',
     ''    "%matplotlib inline"'',
     ''   ]'',
     ''  },'']\<close>

text \<open>Lines 39 to 106 of the file.\<close>

definition nb_cell_3 :: "string list" where
  \<open>nb_cell_3 =
    [''  {'',
     ''   "cell_type": "markdown",'',
     ''   "metadata": {},'',
     ''   "source": ['',
     ''    "## Introduction'' @ bs # ''n",'',
     ''    "'' @ bs # ''n",'',
     ''    "### Deep Transfer Learning'' @ bs # ''n",'',
     ''    "'' @ bs # ''n",'',
     ''    "The definition of deep transfer learning is as follows: given a learning task $T_t$ based on $D_t$, and a related but different learning task $T_s$ based on $D_s$, where $D_s$ and $D_t$ are the source and target domains, respectively, deep transfer learning aims to improve the learning of the target predictive function $f_t('' @ bs # bs # ''cdot)$ in $T_t$ using the knowledge in $D_s$ and $T_s$, where $D_s '' @ bs # bs # ''neq D_t$ and/or $T_s '' @ bs # bs # ''neq T_t$. Among the various deep transfer learning techniques, network-based deep transfer learning is the most widely used. It is based on the assumption that the source and target domains share the same feature space but have different marginal probability distributions. Recently, pre-trained language models, such as GPT and BERT, with large amounts of unlabeled data and fine-tuning in downstream tasks have made a breakthrough in NLP domain (@fig-networktransfer).'' @ bs # ''n",'',
     ''    "'' @ bs # ''n",'',
     ''    "![The typical process of network-based deep transfer learning.](images/2023-09-18-23-06-37.png){#fig-networktransfer width=500}'' @ bs # ''n",'',
     ''    "'' @ bs # ''n",'',
     ''    "### BERT'' @ bs # ''n",'',
     ''    "'' @ bs # ''n",'',
     ''    "![Overall base architecture of BERT with twelve encoder blocks.](images/2023-09-19-00-30-13.png){#fig-bert width=400}'' @ bs # ''n",'',
     ''    "'' @ bs # ''n",'',
     ''    "Language models can be roughly categorized into N-gram language models and neural language models. While classical neural models, including Word2Vec, is still widely used today, BERT improves natural language pre-training by using mask-based objectives and a Transformer-based architecture (@fig-bert), which has successfully improved many state-of-the-art results for various natural language tasks. Since more powerful models like GPT3 are not open-source and not available to public, BERT can be regarded as one of the best pre-trained language models for downstream tasks.'' @ bs # ''n",'',
     ''    "'' @ bs # ''n",'',
     ''    "### Dataset'' @ bs # ''n",'',
     ''    "'' @ bs # ''n",'',
     ''    "There are 2 dataset provided for the project, the training dataset and the testing dataset:'' @ bs # ''n",'',
     ''    "'' @ bs # ''n",'',
     ''    "| Dataset | No. of words/labels | No. of sentences/phrases |'' @ bs # ''n",'',
     ''    "|---------|---------------------|--------------------------|'' @ bs # ''n",'',
     ''    "| Training | 219552 | 23499 |'' @ bs # ''n",'',
     ''    "| Testing | 55042 | 5946 |'' @ bs # ''n",'',
     ''    "'' @ bs # ''n",'',
     ''    "Each word (or token) is assigned a NER label that can be one of: '' @ bs # ''n",'',
     ''    "'' @ bs # ''n",'',
     ''    "- **B-MISC**: Beginning of a miscellaneous entity that doesn't fall under standard categories (like person, organization, or location).'' @ bs # ''n",'',
     ''    "- **I-MISC**: Inside or continuation of a miscellaneous entity.'' @ bs # ''n",'',
     ''    "- **B-PER**: Beginning of a person's name.'' @ bs # ''n",'',
     ''    "- **I-PER**: Inside or continuation of a person's name. Used for multi-word names.'' @ bs # ''n",'',
     ''    "- **O**: Outside of any named entity.'' @ bs # ''n",'',
     ''    "- **B-LOC**: Beginning of a geographical location name.'' @ bs # ''n",'',
     ''    "- **I-LOC**: Inside or continuation of a geographical location name. Used for multi-word locations.'' @ bs # ''n",'',
     ''    "- **B-ORG**: Beginning of an organization name.'' @ bs # ''n",'',
     ''    "- **I-ORG**: Inside or continuation of an organization name. Used for multi-word organizations.'' @ bs # ''n",'',
     ''    "'' @ bs # ''n",'',
     ''    "The **B-** prefix indicates the beginning of an entity, the **I-** prefix indicates that the word is inside an entity, and O indicates a word that is not part of a named entity.'' @ bs # ''n",'',
     ''    "'' @ bs # ''n",'',
     ''    "### Metrics'' @ bs # ''n",'',
     ''    "'' @ bs # ''n",'',
     ''    "Since the task of NER belongs to the group of multi-label classification problems, the following metrics are used to evaluate the performance of the models:'' @ bs # ''n",'',
     ''    "'' @ bs # ''n",'',
     ''    "- **Precision**: Precision measures the proportion of correctly identified named entities out of all entities the model identified. It is calculated using the formula:'' @ bs # ''n",'',
     ''    "'' @ bs # ''n",'',
     ''    "  $$Precision = '' @ bs # bs # ''frac{TP}{TP + FP}$$'' @ bs # ''n",'',
     ''    "'' @ bs # ''n",'',
     ''    "  where `TP` is the number of True Positives (correctly identified entities), and `FP` is the number of False Positives (incorrectly identified entities).'' @ bs # ''n",'',
     ''    "'' @ bs # ''n",'',
     ''    "- **Recall**: Recall assesses the proportion of actual named entities that the model correctly identified. The formula for Recall is:'' @ bs # ''n",'',
     ''    "'' @ bs # ''n",'',
     ''    "  $$Recall = '' @ bs # bs # ''frac{TP}{TP + FN}$$'' @ bs # ''n",'',
     ''    "'' @ bs # ''n",'',
     ''    "  where `FN` is the number of False Negatives (entities that were not identified).'' @ bs # ''n",'',
     ''    "'' @ bs # ''n",'',
     ''    "- **F1 Score**: The F1 Score is the harmonic mean of Precision and Recall, providing a balance between the two. It is particularly useful when the class distribution is uneven. F1 Score is calculated as:'' @ bs # ''n",'',
     ''    "'' @ bs # ''n",'',
     ''    "  $$F1 = 2 '' @ bs # bs # ''times '' @ bs # bs # ''frac{Precision '' @ bs # bs # ''times Recall}{Precision + Recall}$$'' @ bs # ''n",'',
     ''    "'' @ bs # ''n",'',
     ''    "- **Accuracy**: Accuracy measures the overall correctness of the model across all classifications, calculated by:'' @ bs # ''n",'',
     ''    "'' @ bs # ''n",'',
     ''    "  $$ Accuracy = '' @ bs # bs # ''frac{TP + TN}{TP + TN + FP + FN}$$'' @ bs # ''n",'',
     ''    "'' @ bs # ''n",'',
     ''    "  where `TN` is the number of True Negatives (correctly identified non-entities). However, in NER, Accuracy is less informative due to the high number of true negatives (non-entity tokens), which can skew the metric.'' @ bs # ''n"'',
     ''   ]'',
     ''  },'']\<close>

text \<open>Lines 107 to 113 of the file.\<close>

definition nb_cell_4 :: "string list" where
  \<open>nb_cell_4 =
    [''  {'',
     ''   "cell_type": "markdown",'',
     ''   "metadata": {},'',
     ''   "source": ['',
     ''    "## Training & Evaluation Pipelines"'',
     ''   ]'',
     ''  },'']\<close>

text \<open>Lines 114 to 154 of the file.\<close>

definition nb_cell_5 :: "string list" where
  \<open>nb_cell_5 =
    [''  {'',
     ''   "cell_type": "markdown",'',
     ''   "metadata": {},'',
     ''   "source": ['',
     ''    "### Preprocessing'' @ bs # ''n",'',
     ''    "'' @ bs # ''n",'',
     ''    "The data was ingested and preprocessed in several steps:'' @ bs # ''n",'',
     ''    "'' @ bs # ''n",'',
     ''    "- **Verify and clean up the data**: training data and validation data are different, as one is separated by `;;;` and one is separated by a new line. Moreover, there are several samples that are mislabeled into '' @ bs # ''"O O'' @ bs # ''", when it should have been '' @ bs # ''"O'' @ bs # ''". In this case, we simply replace with the correct labels.'' @ bs # ''n",'',
     ''    "- **Read the data into sentences (or phrases)**: In order to tokenize and train the data effectively, it needs to be transformed into sentences or phrases. To do this, we use the comma and the default separator (`;;;` or `'' @ bs # bs # ''n`) to group words that belong in the same sentence together.'' @ bs # ''n",'',
     ''    "'' @ bs # ''n",'',
     ''    "### Tokenization'' @ bs # ''n",'',
     ''    "'' @ bs # ''n",'',
     ''    "The data is tokenized using the `bert-base-uncased` tokenizer from HuggingFace, which is a platform for building, training, and deploying machine learning models, particularly focusing on pre-trained models like transformers. With this, we can transform the sentence into even futher broken-down pieces of sub-words. For example, the sentence *'' @ bs # ''"He said a proposal last month by EU Farm Commissioner Franz Fischler to ban sheep brains spleens and spinal cords from the human and animal food chains was a highly specific and precautionary move to protect human health '' @ sq # bs # ''"* can be tokenized into: '' @ bs # ''n",'',
     ''    "'' @ bs # ''n",'',
     ''    "```raw'' @ bs # ''n",'',
     ''    "['he', 'said', 'a', 'proposal', 'last', 'month', 'by', 'eu', 'farm', 'commissioner', 'franz', 'fis', '##ch', '##ler', 'to', 'ban', 'sheep', 'brains', 'sp', '##leen', '##s', 'and', 'spinal', 'cords', 'from', 'the', 'human', 'and', 'animal', 'food', 'chains', 'was', 'a', 'highly', 'specific', 'and', 'pre', '##ca', '##ution', '##ary', 'move', 'to', 'protect', 'human', 'health', '.']'' @ bs # ''n",'',
     ''    "```'' @ bs # ''n",'',
     ''    "'' @ bs # ''n",'',
     ''    "In this example, we can see that the word '' @ bs # ''"precautionary'' @ bs # ''" is split into 4 sub-words: `'pre', '##ca', '##ution', '##ary'`.'' @ bs # ''n",'',
     ''    "'' @ bs # ''n",'',
     ''    "### BERT Fine-tuning'' @ bs # ''n",'',
     ''    "'' @ bs # ''n",'',
     ''    "We use the same model `bert-base-uncased` for fine-tuning of the NER training dataset. The fine-tuning process can be summarized as follows:'' @ bs # ''n",'',
     ''    "'' @ bs # ''n",'',
     ''    "- Optimization Setup: We define the optimizer `AdamW` with the following parameters:'' @ bs # ''n",'',
     ''    "'' @ bs # ''n",'',
     ''    "  - Learning rate: $5e-5$. We also set up a learning rate scheduler to adjust the learning rate based on the number of warmup steps and total training steps.'' @ bs # ''n",'',
     ''    "  - Adam $'' @ bs # bs # ''epsilon$: $1e-8$'' @ bs # ''n",'',
     ''    "  - Weight decay: $0.0$'' @ bs # ''n",'',
     ''    "'' @ bs # ''n",'',
     ''    "- Training Loop: Iterate over the dataset for 10 epochs. During each batch, the following steps are executed:'' @ bs # ''n",'',
     ''    "'' @ bs # ''n",'',
     ''    "  - Forward pass: Compute the model's output and loss.'' @ bs # ''n",'',
     ''    "  - Backward pass: Compute the gradient of the loss with respect to model parameters.'' @ bs # ''n",'',
     ''    "  - Gradient Clipping: Clip gradients to a maximum norm to prevent exploding gradients.'' @ bs # ''n",'',
     ''    "  - Optimization Step: Update model parameters using the optimizer.'' @ bs # ''n",'',
     ''    "  - Learning Rate Scheduling: Update the learning rate based on the predefined schedule.'' @ bs # ''n",'',
     ''    "  - Zero the gradients to prepare for the next step."'',
     ''   ]'',
     ''  },'']\<close>

text \<open>Lines 155 to 161 of the file.\<close>

definition nb_cell_6 :: "string list" where
  \<open>nb_cell_6 =
    [''  {'',
     ''   "cell_type": "markdown",'',
     ''   "metadata": {},'',
     ''   "source": ['',
     ''    "## Analysis"'',
     ''   ]'',
     ''  },'']\<close>

text \<open>Lines 162 to 190 of the file.\<close>

definition nb_cell_7 :: "string list" where
  \<open>nb_cell_7 =
    [''  {'',
     ''   "cell_type": "markdown",'',
     ''   "metadata": {},'',
     ''   "source": ['',
     ''    "### Results'' @ bs # ''n",'',
     ''    "'' @ bs # ''n",'',
     ''    "After the fine-tuning process, we evaluate the model on the validation dataset. The following results are obtained in @tbl-general-results and @tbl-detail-results:'' @ bs # ''n",'',
     ''    "'' @ bs # ''n",'',
     ''    "'' @ bs # ''n",'',
     ''    "| Metric    | Value  |'' @ bs # ''n",'',
     ''    "|-----------|--------|'' @ bs # ''n",'',
     ''    "| Accuracy  | 96.18% |'' @ bs # ''n",'',
     ''    "| Precision | 78.03% |'' @ bs # ''n",'',
     ''    "| Recall    | 82.56% |'' @ bs # ''n",'',
     ''    "| F1        | 80.23% |'' @ bs # ''n",'',
     ''    "'' @ bs # ''n",'',
     ''    ": Accuracy, Precision, Recall and F1-score on validation dataset. {#tbl-general-results'' @ bs # ''"}'' @ bs # ''n",'',
     ''    "'' @ bs # ''n",'',
     ''    "'' @ bs # ''n",'',
     ''    "| Class | Precision | Recall | F1-Score | Support |'' @ bs # ''n",'',
     ''    "|-------|-----------|--------|----------|---------|'' @ bs # ''n",'',
     ''    "| LOC   | 0.85      | 0.91   | 0.88     | 1837    |'' @ bs # ''n",'',
     ''    "| MISC  | 0.87      | 0.83   | 0.85     | 922     |'' @ bs # ''n",'',
     ''    "| ORG   | 0.59      | 0.67   | 0.63     | 1341    |'' @ bs # ''n",'',
     ''    "| PER   | 0.82      | 0.85   | 0.83     | 1846    |'' @ bs # ''n",'',
     ''    "'' @ bs # ''n",'',
     ''    ": Detailed Metrics by Class. {#tbl-detail-results'' @ bs # ''"}"'',
     ''   ]'',
     ''  },'']\<close>

text \<open>Lines 191 to 208 of the file.\<close>

definition nb_cell_8 :: "string list" where
  \<open>nb_cell_8 =
    [''  {'',
     ''   "cell_type": "markdown",'',
     ''   "metadata": {},'',
     ''   "source": ['',
     ''    "### Discussion'' @ bs # ''n",'',
     ''    "'' @ bs # ''n",'',
     ''    "'' @ bs # ''n",'',
     ''    "The fine-tuning of BERT for Named Entity Recognition (NER) classification has yielded promising results, as evidenced by the metrics presented in the general and detailed results tables. Particularly, when looking at different classes, we can see that: '' @ bs # ''n",'',
     ''    "'' @ bs # ''n",'',
     ''    "- **Location (LOC)** entities achieved high precision and recall, leading to an F1 score of 0.88. This indicates the model's strong capability in identifying geographical entities, likely due to distinct contextual and syntactical patterns associated with such entities.'' @ bs # ''n",'',
     ''    "'' @ bs # ''n",'',
     ''    "- **Miscellaneous (MISC)** entities also showed strong performance with an F1 score of 0.85. The precision and recall balance suggests that the model is reasonably effective in identifying entities that do not fall into the more standard categories.'' @ bs # ''n",'',
     ''    "'' @ bs # ''n",'',
     ''    "- **Organizations (ORG)** is not very high at 0.63, as the lowest precision and F1 score among the categories. This could be due to the diverse nature of organization names and possible overlaps with other entity types, indicating a need for model improvement in this area.'' @ bs # ''n",'',
     ''    "'' @ bs # ''n",'',
     ''    "- **Person (PER)** names were well-recognized, with an F1 score of 0.83, reflecting the model's effectiveness in identifying individual names, possibly due to clear patterns and contextual cues.'' @ bs # ''n"'',
     ''   ]'',
     ''  },'']\<close>

text \<open>Lines 209 to 217 of the file.\<close>

definition nb_cell_9 :: "string list" where
  \<open>nb_cell_9 =
    [''  {'',
     ''   "cell_type": "markdown",'',
     ''   "metadata": {},'',
     ''   "source": ['',
     ''    "## Conclusion'' @ bs # ''n",'',
     ''    "'' @ bs # ''n",'',
     ''    "In this project, we have applied deep transfer learning and fine-tuning BERT for the task of Name Entity Recognition. The fine-tuned BERT model demonstrates strong potential in NER tasks, with particularly impressive results in identifying LOC and PER entities. The relatively lower performance on ORG entities suggests an area for further model refinement. Future work could explore more advanced techniques for handling ambiguous entities, additional contextual features, or more sophisticated post-processing rules to improve precision and recall across all entity types.'' @ bs # ''n"'',
     ''   ]'',
     ''  }'']\<close>

text \<open>Lines 218 to 240 of the file.\<close>

definition nb_trailer :: "string list" where
  \<open>nb_trailer =
    ['' ],'',
     '' "metadata": {'',
     ''  "kernelspec": {'',
     ''   "display_name": "Python 3",'',
     ''   "language": "python",'',
     ''   "name": "python3"'',
     ''  },'',
     ''  "language_info": {'',
     ''   "codemirror_mode": {'',
     ''    "name": "ipython",'',
     ''    "version": 3'',
     ''   },'',
     ''   "file_extension": ".py",'',
     ''   "mimetype": "text/x-python",'',
     ''   "name": "python",'',
     ''   "nbconvert_exporter": "python",'',
     ''   "pygments_lexer": "ipython3",'',
     ''   "version": "3.10.13"'',
     ''  }'',
     '' },'',
     '' "nbformat": 4,'',
     '' "nbformat_minor": 2'',
     ''}'']\<close>


text \<open>The ten cell blocks, in the order of the file.\<close>

definition nb_cells_lines :: "string list list" where
  "nb_cells_lines =
     [nb_cell_0, nb_cell_1, nb_cell_2, nb_cell_3, nb_cell_4,
      nb_cell_5, nb_cell_6, nb_cell_7, nb_cell_8, nb_cell_9]"

definition report_ipynb :: "string list" where
  "report_ipynb = nb_preamble @ concat nb_cells_lines @ nb_trailer"

text \<open>Lines \<open>a\<close> to \<open>b\<close> of the file, counted from 1.\<close>

definition file_lines :: "nat \<Rightarrow> nat \<Rightarrow> string list" where
  "file_lines a b = take (Suc b - a) (drop (a - 1) report_ipynb)"

subsection \<open>Reading the notebook layout\<close>

datatype cell_type = Markdown | Code

text \<open>
  A cell block opens with its type and metadata, holds its source lines between
  \<^verbatim>\<open>"source": [\<close> and \<^verbatim>\<open>]\<close>, and closes with a brace.  The code cell also
  records its execution count and its outputs, which are empty.
\<close>

definition md_header :: "string list" where
  \<open>md_header =
     [''  {'', ''   "cell_type": "markdown",'', ''   "metadata": {},'', ''   "source": ['']\<close>

definition code_header :: "string list" where
  \<open>code_header =
     [''  {'', ''   "cell_type": "code",'', ''   "execution_count": 17,'',
      ''   "metadata": {},'', ''   "outputs": [],'', ''   "source": ['']\<close>

definition is_footer :: "string list \<Rightarrow> bool" where
  "is_footer ls \<longleftrightarrow> ls = [''   ]'', ''  },''] \<or> ls = [''   ]'', ''  }'']"

definition body_after :: "nat \<Rightarrow> string list \<Rightarrow> string list option" where
  "body_after n ls =
     (if n + 2 \<le> length ls \<and> is_footer (drop (length ls - 2) ls)
      then Some (take (length ls - n - 2) (drop n ls)) else None)"

text \<open>The type of a cell block and its source lines, as the file spells them.\<close>

definition parse_cell :: "string list \<Rightarrow> (cell_type \<times> string list) option" where
  "parse_cell ls =
     (if take 4 ls = md_header then map_option (Pair Markdown) (body_after 4 ls)
      else if take 6 ls = code_header then map_option (Pair Code) (body_after 6 ls)
      else None)"

text \<open>The number of source lines of the cells of one type.\<close>

definition source_line_count :: "cell_type \<Rightarrow> string list list \<Rightarrow> nat" where
  "source_line_count t cells =
     sum_list (map (\<lambda>c. case parse_cell c of
                            None \<Rightarrow> 0
                          | Some (t', src) \<Rightarrow> if t' = t then length src else 0) cells)"

text \<open>
  A source line is a JSON string, indented by four blanks and followed by a comma unless
  it is the last of its cell.  \<open>json_chars\<close> decodes the characters after the opening
  quote; the file uses the escapes \<^verbatim>\<open>\n\<close>, \<^verbatim>\<open>\"\<close> and \<^verbatim>\<open>\\\<close> only, and any other
  escape is refused.
\<close>

fun json_chars :: "string \<Rightarrow> string option" where
  "json_chars [] = None"
| "json_chars (c # cs) =
     (if c = CHR 0x22 then (if cs = [] \<or> cs = '','' then Some [] else None)
      else if c = bs then
        (case cs of
           [] \<Rightarrow> None
         | e # r \<Rightarrow>
             if e = CHR ''n'' then map_option ((#) CHR 0x0A) (json_chars r)
             else if e = CHR 0x22 \<or> e = bs then map_option ((#) e) (json_chars r)
             else None)
      else map_option ((#) c) (json_chars cs))"

definition json_string :: "string \<Rightarrow> string option" where
  "json_string l =
     (if take 5 l = ''    '' @ [CHR 0x22] then json_chars (drop 5 l) else None)"

text \<open>Decode each line and read it with \<open>f\<close>; every line has to be read.\<close>

definition read_lines :: "(string \<Rightarrow> 'a option) \<Rightarrow> string list \<Rightarrow> 'a list option" where
  "read_lines f ls = those (map (\<lambda>l. Option.bind (json_string l) f) ls)"

subsection \<open>Strings\<close>

text \<open>Python's \<open>str.startswith\<close> and \<open>in\<close>, with the pattern first.\<close>

fun starts_with :: "string \<Rightarrow> string \<Rightarrow> bool" where
  "starts_with [] s = True"
| "starts_with (p # ps) [] = False"
| "starts_with (p # ps) (c # cs) = (p = c \<and> starts_with ps cs)"

fun contains :: "string \<Rightarrow> string \<Rightarrow> bool" where
  "contains p [] = (p = [])"
| "contains p (c # cs) = (starts_with p (c # cs) \<or> contains p cs)"

text \<open>The text before and after the first occurrence of a separator.\<close>

fun split_on :: "string \<Rightarrow> string \<Rightarrow> (string \<times> string) option" where
  "split_on sep [] = None"
| "split_on sep (c # cs) =
     (if starts_with sep (c # cs) then Some ([], drop (length sep) (c # cs))
      else map_option (\<lambda>(a, b). (c # a, b)) (split_on sep cs))"

text \<open>Python's \<open>str.split\<close> on one character.\<close>

fun split_char :: "char \<Rightarrow> string \<Rightarrow> string list" where
  "split_char d [] = [[]]"
| "split_char d (c # cs) =
     (if c = d then [] # split_char d cs
      else (case split_char d cs of w # ws \<Rightarrow> (c # w) # ws | [] \<Rightarrow> [[c]]))"

text \<open>A line without its final newline, and a string without the blanks around it.\<close>

definition chomp :: "string \<Rightarrow> string" where
  "chomp l = (if l \<noteq> [] \<and> last l = CHR 0x0A then butlast l else l)"

definition trim :: "string \<Rightarrow> string" where
  "trim s = rev (dropWhile (\<lambda>c. c = CHR '' '') (rev (dropWhile (\<lambda>c. c = CHR '' '') s)))"

definition digit_val :: "char \<Rightarrow> nat option" where
  "digit_val =
     map_of [(CHR ''0'', 0), (CHR ''1'', 1), (CHR ''2'', 2), (CHR ''3'', 3), (CHR ''4'', 4),
             (CHR ''5'', 5), (CHR ''6'', 6), (CHR ''7'', 7), (CHR ''8'', 8), (CHR ''9'', 9)]"

fun digits_val :: "nat \<Rightarrow> string \<Rightarrow> nat option" where
  "digits_val acc [] = Some acc"
| "digits_val acc (c # cs) =
     (case digit_val c of None \<Rightarrow> None | Some d \<Rightarrow> digits_val (10 * acc + d) cs)"

definition nat_lit :: "string \<Rightarrow> nat option" where
  "nat_lit s = (if s = [] then None else digits_val 0 s)"

text \<open>A decimal numeral, as the exact rational it denotes.\<close>

definition decimal :: "string \<Rightarrow> rat option" where
  "decimal s =
     (case split_on ''.'' s of
        None \<Rightarrow> map_option of_nat (nat_lit s)
      | Some (a, b) \<Rightarrow>
          (case (nat_lit a, nat_lit b) of
             (Some x, Some y) \<Rightarrow> Some (of_nat x + of_nat y / 10 ^ length b)
           | _ \<Rightarrow> None))"

definition percent :: "string \<Rightarrow> rat option" where
  "percent s = (if s \<noteq> [] \<and> last s = CHR ''%'' then decimal (butlast s) else None)"

subsection \<open>Metrics (cell 3, "Metrics")\<close>

text \<open>
  The report defines
  \<^verbatim>\<open>F1 = 2 \times \frac{Precision \times Recall}{Precision + Recall}\<close>.
  The formula is homogeneous of degree one, so it applies to percentages as it does to
  fractions.
\<close>

definition F1 :: "rat \<Rightarrow> rat \<Rightarrow> rat" where
  "F1 p r = 2 * (p * r / (p + r))"

text \<open>Rounding to \<open>d\<close> decimal places, to the nearest value, a tie going up.\<close>

definition round_to :: "nat \<Rightarrow> rat \<Rightarrow> rat" where
  "round_to d x = of_int \<lfloor>x * 10 ^ d + 1 / 2\<rfloor> / 10 ^ d"

subsection \<open>The result tables (cell 7, "Results")\<close>

text \<open>The cells of a row of a pipe table.\<close>

definition row_cells :: "string \<Rightarrow> string list option" where
  "row_cells l =
     (case split_char CHR ''|'' (chomp l) of
        [] \<Rightarrow> None
      | f # r \<Rightarrow> if f = [] \<and> r \<noteq> [] \<and> last r = [] then Some (map trim (butlast r)) else None)"

text \<open>
  Lines 173 to 176 of the file:
  \<^verbatim>\<open>
  | Metric    | Value  |
  |-----------|--------|
  | Accuracy  | 96.18% |
  | Precision | 78.03% |
  | Recall    | 82.56% |
  | F1        | 80.23% |
  \<close>
  The values are percentages with two decimals.
\<close>

definition general_row :: "string \<Rightarrow> (string \<times> rat) option" where
  "general_row l =
     (case row_cells l of
        Some [m, v] \<Rightarrow> map_option (Pair m) (percent v)
      | _ \<Rightarrow> None)"

definition tbl_general_results :: "(string \<times> rat) list" where
  "tbl_general_results =
     [(''Accuracy'', 96.18),
      (''Precision'', 78.03),
      (''Recall'', 82.56),
      (''F1'', 80.23)]"

text \<open>
  Lines 183 to 186 of the file:
  \<^verbatim>\<open>
  | Class | Precision | Recall | F1-Score | Support |
  |-------|-----------|--------|----------|---------|
  | LOC   | 0.85      | 0.91   | 0.88     | 1837    |
  | MISC  | 0.87      | 0.83   | 0.85     | 922     |
  | ORG   | 0.59      | 0.67   | 0.63     | 1341    |
  | PER   | 0.82      | 0.85   | 0.83     | 1846    |
  \<close>
\<close>

record metric_row =
  cls :: string
  precision :: rat
  recall :: rat
  f1_score :: rat
  support :: nat

definition detail_row :: "string \<Rightarrow> metric_row option" where
  "detail_row l =
     (case row_cells l of
        Some [c, p, r, f, s] \<Rightarrow>
          (case (decimal p, decimal r, decimal f, nat_lit s) of
             (Some p', Some r', Some f', Some s') \<Rightarrow>
               Some \<lparr>cls = c, precision = p', recall = r', f1_score = f', support = s'\<rparr>
           | _ \<Rightarrow> None)
      | _ \<Rightarrow> None)"

definition tbl_detail_results :: "metric_row list" where
  "tbl_detail_results =
     [\<lparr>cls = ''LOC'', precision = 0.85, recall = 0.91, f1_score = 0.88, support = 1837\<rparr>,
      \<lparr>cls = ''MISC'', precision = 0.87, recall = 0.83, f1_score = 0.85, support = 922\<rparr>,
      \<lparr>cls = ''ORG'', precision = 0.59, recall = 0.67, f1_score = 0.63, support = 1341\<rparr>,
      \<lparr>cls = ''PER'', precision = 0.82, recall = 0.85, f1_score = 0.83, support = 1846\<rparr>]"

text \<open>A row is consistent when its F1-Score is the rounded harmonic mean of its own
  Precision and Recall.\<close>

definition row_consistent :: "metric_row \<Rightarrow> bool" where
  "row_consistent r \<longleftrightarrow> round_to 2 (F1 (precision r) (recall r)) = f1_score r"

text \<open>Line \<open>n\<close> of the file is a source line whose text contains \<open>p\<close>.\<close>

definition line_says :: "nat \<Rightarrow> string \<Rightarrow> bool" where
  "line_says n p \<longleftrightarrow>
     (case read_lines Some (file_lines n n) of
        Some [l] \<Rightarrow> contains p l
      | _ \<Rightarrow> False)"

text \<open>The rows of a table other than the row of class \<open>c\<close>.\<close>

definition other_rows :: "string \<Rightarrow> metric_row list \<Rightarrow> metric_row list" where
  "other_rows c tbl = filter (\<lambda>r. cls r \<noteq> c) tbl"

subsection \<open>The label list (cell 3, "Dataset")\<close>

text \<open>
  Lines 68 to 76 of the file are the nine bullets \<^verbatim>\<open>- **B-MISC**: ...\<close> to
  \<^verbatim>\<open>- **I-ORG**: ...\<close>.  The label of a bullet is its bold term.
\<close>

definition bullet_term :: "string \<Rightarrow> string option" where
  "bullet_term l =
     (if starts_with ''- **'' l then map_option fst (split_on ''**'' (drop 4 l)) else None)"

definition ner_labels :: "string list" where
  "ner_labels =
     [''B-MISC'', ''I-MISC'', ''B-PER'', ''I-PER'', ''O'',
      ''B-LOC'', ''I-LOC'', ''B-ORG'', ''I-ORG'']"

text \<open>The entity categories are the classes of the detailed table.\<close>

definition entity_categories :: "string list" where
  "entity_categories = map cls tbl_detail_results"

text \<open>BIO tagging: \<open>O\<close>, or \<open>B-\<close> or \<open>I-\<close> in front of an entity category.\<close>

definition bio_label :: "string \<Rightarrow> bool" where
  "bio_label l \<longleftrightarrow>
     l = ''O'' \<or> list_ex (\<lambda>c. l = ''B-'' @ c \<or> l = ''I-'' @ c) entity_categories"

definition both_variants_listed :: "string \<Rightarrow> bool" where
  "both_variants_listed c \<longleftrightarrow> ''B-'' @ c \<in> set ner_labels \<and> ''I-'' @ c \<in> set ner_labels"

subsection \<open>Image references\<close>

text \<open>
  An image is referenced by a markdown link \<^verbatim>\<open>![alt](target)\<close>.  Any other way of
  bringing an image in (a reference-style link \<^verbatim>\<open>![alt][ref]\<close>, an HTML \<^verbatim>\<open><img>\<close>
  element) is recorded as \<open>OtherImage\<close>, so that no reference goes unnoticed.
\<close>

datatype image_ref = MarkdownImage string | OtherImage

text \<open>The reference that starts after \<^verbatim>\<open>![\<close>.\<close>

definition link_target :: "string \<Rightarrow> image_ref" where
  "link_target r =
     (case dropWhile (\<lambda>c. c \<noteq> CHR '']'') r of
        k # p # u \<Rightarrow>
          if p = CHR ''('' \<and> CHR '')'' \<in> set u
          then MarkdownImage (takeWhile (\<lambda>c. c \<noteq> CHR '')'') u) else OtherImage
      | _ \<Rightarrow> OtherImage)"

fun image_refs :: "string \<Rightarrow> image_ref list" where
  "image_refs [] = []"
| "image_refs (c # cs) =
     (if c = CHR ''!'' \<and> starts_with ''['' cs then link_target (drop 1 cs) # image_refs cs
      else if c = CHR ''<'' \<and> starts_with ''img'' cs then OtherImage # image_refs cs
      else image_refs cs)"

definition line_images :: "string \<Rightarrow> image_ref list option" where
  "line_images l = map_option image_refs (json_string l)"

text \<open>The images of a cell: those of its markdown source; the code cell has no
  markdown and no outputs.\<close>

definition cell_images :: "string list \<Rightarrow> image_ref list option" where
  "cell_images ls =
     (case parse_cell ls of
        None \<Rightarrow> None
      | Some (t, src) \<Rightarrow>
          (case t of
             Code \<Rightarrow> Some []
           | Markdown \<Rightarrow> map_option concat (those (map line_images src))))"

definition document_images :: "image_ref list option" where
  "document_images = map_option concat (those (map cell_images nb_cells_lines))"

text \<open>A target below the directory \<open>images\<close>, relative to the document: it starts
  with \<open>images/\<close>, so not with a slash, and it names no URL scheme.\<close>

fun relative_under_images :: "image_ref \<Rightarrow> bool" where
  "relative_under_images (MarkdownImage t) \<longleftrightarrow>
     starts_with ''images/'' t \<and> \<not> starts_with ''/'' t \<and> \<not> contains ''://'' t"
| "relative_under_images OtherImage \<longleftrightarrow> False"

section \<open>The code cell (cell 2)\<close>

text \<open>
  Lines 23 to 36 of the file hold the source of the only code cell:
  \<^verbatim>\<open>
  %config InlineBackend.figure_formats = ['svg']

  import pandas as pd
  import numpy as np

  import matplotlib.pyplot as plt
  from matplotlib.image import imread
  import seaborn as sns

  plt.rcParams['font.family'] = 'Latin Modern Roman'

  DPI = 800

  %matplotlib inline
  \<close>
\<close>

subsection \<open>Statements\<close>

text \<open>
  The cell is written in six statement forms, none of which branches, loops, calls or
  computes: the right-hand sides are literals.
\<close>

datatype stmt =
    ConfigMagic string string "string list"
      \<comment> \<open>\<^verbatim>\<open>%config Class.trait = ['v', ...]\<close>\<close>
  | Import string string
      \<comment> \<open>\<^verbatim>\<open>import module as alias\<close>\<close>
  | ImportFrom string string
      \<comment> \<open>\<^verbatim>\<open>from module import name\<close>\<close>
  | SetItem string string string string
      \<comment> \<open>\<^verbatim>\<open>name.attr['key'] = 'value'\<close>\<close>
  | Assign string int
      \<comment> \<open>\<^verbatim>\<open>NAME = 123\<close>\<close>
  | MatplotlibMagic string
      \<comment> \<open>\<^verbatim>\<open>%matplotlib backend\<close>\<close>

definition config_cell :: "stmt list" where
  "config_cell =
     [ConfigMagic ''InlineBackend'' ''figure_formats'' [''svg''],
      Import ''pandas'' ''pd'',
      Import ''numpy'' ''np'',
      Import ''matplotlib.pyplot'' ''plt'',
      ImportFrom ''matplotlib.image'' ''imread'',
      Import ''seaborn'' ''sns'',
      SetItem ''plt'' ''rcParams'' ''font.family'' ''Latin Modern Roman'',
      Assign ''DPI'' 800,
      MatplotlibMagic ''inline'']"

subsection \<open>Reading the statements from the source lines\<close>

definition ident_char :: "char \<Rightarrow> bool" where
  "ident_char c \<longleftrightarrow>
     c \<in> set ''abcdefghijklmnopqrstuvwxyzABCDEFGHIJKLMNOPQRSTUVWXYZ_0123456789''"

definition ident :: "string \<Rightarrow> bool" where
  "ident s \<longleftrightarrow> s \<noteq> [] \<and> list_all ident_char s \<and> hd s \<notin> set ''0123456789''"

definition dotted :: "string \<Rightarrow> bool" where
  "dotted s \<longleftrightarrow> list_all ident (split_char CHR ''.'' s)"

text \<open>A string literal in single quotes, without escapes, and a list of them.\<close>

definition str_lit :: "string \<Rightarrow> string option" where
  "str_lit s =
     (case s of
        [] \<Rightarrow> None
      | q # r \<Rightarrow>
          if q = sq \<and> r \<noteq> [] \<and> last r = sq \<and> sq \<notin> set (butlast r) \<and> bs \<notin> set r
          then Some (butlast r) else None)"

definition str_list_lit :: "string \<Rightarrow> string list option" where
  "str_list_lit s =
     (case s of
        [] \<Rightarrow> None
      | q # r \<Rightarrow>
          if q = CHR ''['' \<and> r \<noteq> [] \<and> last r = CHR '']''
          then those (map (\<lambda>x. str_lit (trim x)) (split_char CHR '','' (butlast r)))
          else None)"

text \<open>A subscript target \<^verbatim>\<open>name.attr['key']\<close>.\<close>

definition subscript_target :: "string \<Rightarrow> (string \<times> string \<times> string) option" where
  "subscript_target s =
     (case split_on ''['' s of
        None \<Rightarrow> None
      | Some (obj, r) \<Rightarrow>
          (case split_on ''.'' obj of
             None \<Rightarrow> None
           | Some (n, a) \<Rightarrow>
               if ident n \<and> ident a \<and> r \<noteq> [] \<and> last r = CHR '']''
               then map_option (\<lambda>k. (n, a, k)) (str_lit (butlast r)) else None))"

text \<open>
  One statement.  A line in none of the six forms is not read: a compound statement
  (\<open>if\<close>, \<open>for\<close>, \<open>while\<close>, \<open>def\<close>, \<open>with\<close>), a call, or an assignment whose right-hand
  side is not a literal gives \<open>None\<close>.
\<close>

definition parse_stmt :: "string \<Rightarrow> stmt option" where
  "parse_stmt l =
     (if starts_with ''%config '' l then
        (case split_on '' = '' (drop 8 l) of
           None \<Rightarrow> None
         | Some (tgt, v) \<Rightarrow>
             (case split_on ''.'' tgt of
                None \<Rightarrow> None
              | Some (c, t) \<Rightarrow>
                  if ident c \<and> ident t then map_option (ConfigMagic c t) (str_list_lit v)
                  else None))
      else if starts_with ''%matplotlib '' l then
        (if ident (drop 12 l) then Some (MatplotlibMagic (drop 12 l)) else None)
      else if starts_with ''import '' l then
        (case split_on '' as '' (drop 7 l) of
           None \<Rightarrow> None
         | Some (m, a) \<Rightarrow> if dotted m \<and> ident a then Some (Import m a) else None)
      else if starts_with ''from '' l then
        (case split_on '' import '' (drop 5 l) of
           None \<Rightarrow> None
         | Some (m, n) \<Rightarrow> if dotted m \<and> ident n then Some (ImportFrom m n) else None)
      else
        (case split_on '' = '' l of
           None \<Rightarrow> None
         | Some (tgt, v) \<Rightarrow>
             if ident tgt then map_option (\<lambda>i. Assign tgt (int i)) (nat_lit v)
             else
               (case subscript_target tgt of
                  None \<Rightarrow> None
                | Some (n, a, k) \<Rightarrow> map_option (SetItem n a k) (str_lit v))))"

text \<open>A source line: blank, or one statement.\<close>

definition parse_line :: "string \<Rightarrow> stmt list option" where
  "parse_line l =
     (if chomp l = [] then Some [] else map_option (\<lambda>s. [s]) (parse_stmt (chomp l)))"

definition code_cell_statements :: "string list \<Rightarrow> stmt list option" where
  "code_cell_statements ls =
     (case parse_cell ls of
        Some (Code, src) \<Rightarrow> map_option concat (read_lines parse_line src)
      | _ \<Rightarrow> None)"

subsection \<open>What a statement is\<close>

datatype stmt_kind = DisplaySetting | ModuleImport | ConstantBinding | OtherStatement

text \<open>
  A display setting sets an option of the inline backend or of matplotlib's \<open>rcParams\<close>,
  or selects the backend.
\<close>

fun kind_of :: "stmt \<Rightarrow> stmt_kind" where
  "kind_of (ConfigMagic c t v) =
     (if c = ''InlineBackend'' then DisplaySetting else OtherStatement)"
| "kind_of (Import m a) = ModuleImport"
| "kind_of (ImportFrom m n) = ModuleImport"
| "kind_of (SetItem n a k v) = (if a = ''rcParams'' then DisplaySetting else OtherStatement)"
| "kind_of (Assign n i) = ConstantBinding"
| "kind_of (MatplotlibMagic b) = DisplaySetting"





subsection \<open>The kernel session\<close>

datatype pyval =
    IntV int
  | StrV string
  | ModuleV string
      \<comment> \<open>a module, by its dotted name\<close>
  | ImportedV string string
      \<comment> \<open>the object \<open>name\<close> of a module\<close>

text \<open>
  The part of the kernel session that the statements of the cell address: the user
  namespace, the traits of IPython's configurables (by class and trait), matplotlib's
  \<open>rcParams\<close>, and the active matplotlib backend.
\<close>

record session =
  user_ns :: "string \<rightharpoonup> pyval"
  config :: "string \<times> string \<rightharpoonup> string list"
  rcParams :: "string \<rightharpoonup> string"
  backend :: "string option"


datatype error =
    ImportError string
  | ModuleNotFoundError string
  | NameError string
  | AttributeError string string

subsection \<open>The environment\<close>

text \<open>
  Whether an import succeeds is decided outside the repository: by the packages that
  are installed, and by what a package does while it loads (its own imports, its checks
  of its dependencies).  The environment gives, for a module by its dotted name, the
  exception that loading it raises, or \<open>None\<close> when it loads.  What else loading a
  library does inside the library is not part of the session above, and the interpreter
  says nothing about it.
\<close>

type_synonym environment = "string \<Rightarrow> error option"

text \<open>Python loads the packages a dotted name lies in first: \<open>a\<close>, \<open>a.b\<close>, \<open>a.b.c\<close>.\<close>

fun chain_from :: "string \<Rightarrow> string list \<Rightarrow> string list" where
  "chain_from pre [] = []"
| "chain_from pre (p # ps) =
     (if pre = [] then p else pre @ ''.'' @ p) #
     chain_from (if pre = [] then p else pre @ ''.'' @ p) ps"

definition import_chain :: "string \<Rightarrow> string list" where
  "import_chain m = chain_from [] (split_char CHR ''.'' m)"

fun first_error :: "error option list \<Rightarrow> error option" where
  "first_error [] = None"
| "first_error (None # es) = first_error es"
| "first_error (Some e # es) = Some e"

definition load :: "environment \<Rightarrow> string \<Rightarrow> error option" where
  "load env m = first_error (map env (import_chain m))"


definition top_package :: "string \<Rightarrow> string" where
  "top_package m = takeWhile (\<lambda>c. c \<noteq> CHR ''.'') m"


subsection \<open>Execution\<close>

text \<open>The modules that export matplotlib's \<open>rcParams\<close>.\<close>

definition has_rcParams :: "string \<Rightarrow> bool" where
  "has_rcParams m \<longleftrightarrow> m = ''matplotlib'' \<or> m = ''matplotlib.pyplot''"

text \<open>The value IPython gives \<open>rcParams['backend']\<close> for a backend of its table.\<close>

definition rc_backend :: "string \<Rightarrow> string" where
  "rc_backend b = (if b = ''inline'' then ''module://matplotlib_inline.backend_inline'' else b)"

text \<open>
  One statement.  A statement either raises and leaves the session as it was, or
  returns the session it has changed.
  \<^item> An import raises what the environment makes loading the module raise, and binds
    the alias when the module loads.
  \<^item> \<^verbatim>\<open>name.attr['key'] = 'value'\<close> looks the name up (\<open>NameError\<close> when it is
    unbound), takes the attribute (\<open>AttributeError\<close> when the value has none of that
    name) and stores the item.  \<open>font.family\<close> is a parameter of matplotlib that
    accepts any string.
  \<^item> The two magics are commands of the kernel.  \<^verbatim>\<open>%config\<close> sets a trait.
    \<^verbatim>\<open>%matplotlib\<close> loads \<open>matplotlib.pyplot\<close>, switches matplotlib to
    interactive mode, sets the backend parameter and records the backend.
\<close>

fun exec_stmt :: "environment \<Rightarrow> stmt \<Rightarrow> session \<Rightarrow> error + session" where
  "exec_stmt env (ConfigMagic c t v) s = Inr (s\<lparr>config := (config s)((c, t) \<mapsto> v)\<rparr>)"
| "exec_stmt env (Import m a) s =
     (case load env m of
        Some e \<Rightarrow> Inl e
      | None \<Rightarrow> Inr (s\<lparr>user_ns := (user_ns s)(a \<mapsto> ModuleV m)\<rparr>))"
| "exec_stmt env (ImportFrom m n) s =
     (case load env m of
        Some e \<Rightarrow> Inl e
      | None \<Rightarrow> Inr (s\<lparr>user_ns := (user_ns s)(n \<mapsto> ImportedV m n)\<rparr>))"
| "exec_stmt env (SetItem n a k v) s =
     (case user_ns s n of
        None \<Rightarrow> Inl (NameError n)
      | Some (ModuleV m) \<Rightarrow>
          if has_rcParams m \<and> a = ''rcParams''
          then Inr (s\<lparr>rcParams := (rcParams s)(k \<mapsto> v)\<rparr>)
          else Inl (AttributeError m a)
      | Some _ \<Rightarrow> Inl (AttributeError n a))"
| "exec_stmt env (Assign n i) s = Inr (s\<lparr>user_ns := (user_ns s)(n \<mapsto> IntV i)\<rparr>)"
| "exec_stmt env (MatplotlibMagic b) s =
     (case load env ''matplotlib.pyplot'' of
        Some e \<Rightarrow> Inl e
      | None \<Rightarrow>
          Inr (s\<lparr>rcParams := (rcParams s)(''interactive'' \<mapsto> ''True'', ''backend'' \<mapsto> rc_backend b),
                backend := Some b\<rparr>))"

text \<open>
  A cell runs its statements in order and stops at the first that raises; what the
  statements before it did stays done, as in the kernel.
\<close>

fun exec_cell :: "environment \<Rightarrow> stmt list \<Rightarrow> session \<Rightarrow> error option \<times> session" where
  "exec_cell env [] s = (None, s)"
| "exec_cell env (c # cs) s =
     (case exec_stmt env c s of
        Inl e \<Rightarrow> (Some e, s)
      | Inr s' \<Rightarrow> exec_cell env cs s')"




section \<open>Evaluation\<close>

text \<open>
  The two readers that walk a whole line character by character are evaluated by rules
  with premises instead of their defining equations: a conditional in a recursive
  equation makes the simplifier normalise the rest of the line once per character.
\<close>

lemma json_chars_eval:
  "json_chars [] = None"
  "json_chars [CHR 0x22] = Some []"
  "json_chars [CHR 0x22, CHR '',''] = Some []"
  "json_chars (bs # CHR ''n'' # r) = map_option ((#) CHR 0x0A) (json_chars r)"
  "json_chars (bs # CHR 0x22 # r) = map_option ((#) CHR 0x22) (json_chars r)"
  "json_chars (bs # bs # r) = map_option ((#) bs) (json_chars r)"
  "c \<noteq> CHR 0x22 \<Longrightarrow> c \<noteq> bs \<Longrightarrow> json_chars (c # cs) = map_option ((#) c) (json_chars cs)"
  by simp_all

lemma image_refs_eval:
  "image_refs [] = []"
  "image_refs (CHR ''!'' # cs) =
     (if starts_with ''['' cs then [link_target (drop 1 cs)] else []) @ image_refs cs"
  "image_refs (CHR ''<'' # cs) =
     (if starts_with ''img'' cs then [OtherImage] else []) @ image_refs cs"
  "c \<noteq> CHR ''!'' \<Longrightarrow> c \<noteq> CHR ''<'' \<Longrightarrow> image_refs (c # cs) = image_refs cs"
  by simp_all

declare json_chars.simps [simp del]

declare image_refs.simps [simp del]

lemmas nb_defs =
  nb_preamble_def nb_cell_0_def nb_cell_1_def nb_cell_2_def nb_cell_3_def nb_cell_4_def
  nb_cell_5_def nb_cell_6_def nb_cell_7_def nb_cell_8_def nb_cell_9_def nb_trailer_def

lemmas parse_cell_defs =
  parse_cell_def md_header_def code_header_def body_after_def is_footer_def

lemmas json_defs = read_lines_def json_string_def json_chars_eval

lemmas number_defs = decimal_def percent_def nat_lit_def digit_val_def

lemmas table_defs = row_cells_def chomp_def trim_def number_defs

lemmas stmt_defs =
  parse_line_def chomp_def parse_stmt_def str_list_lit_def str_lit_def trim_def
  subscript_target_def ident_def ident_char_def dotted_def nat_lit_def digit_val_def

lemmas image_defs = cell_images_def parse_cell_defs line_images_def json_defs image_refs_eval link_target_def

section \<open>The layout of the file\<close>

lemma nb_lengths:
  "length nb_preamble = 2"
  "length nb_cell_0 = 7"
  "length nb_cell_1 = 7"
  "length nb_cell_2 = 22"
  "length nb_cell_3 = 68"
  "length nb_cell_4 = 7"
  "length nb_cell_5 = 41"
  "length nb_cell_6 = 7"
  "length nb_cell_7 = 29"
  "length nb_cell_8 = 18"
  "length nb_cell_9 = 9"
  "length nb_trailer = 23"
  by (simp_all add: nb_defs)

lemma report_length: "length report_ipynb = 240"
  by (simp add: report_ipynb_def nb_cells_lines_def nb_lengths)

lemma parse_nb_cells:
  "parse_cell nb_cell_0 = Some (Markdown, take 1 (drop 4 nb_cell_0))"
  "parse_cell nb_cell_1 = Some (Markdown, take 1 (drop 4 nb_cell_1))"
  "parse_cell nb_cell_2 = Some (Code, take 14 (drop 6 nb_cell_2))"
  "parse_cell nb_cell_3 = Some (Markdown, take 62 (drop 4 nb_cell_3))"
  "parse_cell nb_cell_4 = Some (Markdown, take 1 (drop 4 nb_cell_4))"
  "parse_cell nb_cell_5 = Some (Markdown, take 35 (drop 4 nb_cell_5))"
  "parse_cell nb_cell_6 = Some (Markdown, take 1 (drop 4 nb_cell_6))"
  "parse_cell nb_cell_7 = Some (Markdown, take 23 (drop 4 nb_cell_7))"
  "parse_cell nb_cell_8 = Some (Markdown, take 12 (drop 4 nb_cell_8))"
  "parse_cell nb_cell_9 = Some (Markdown, take 3 (drop 4 nb_cell_9))"
  by (simp_all add: nb_defs parse_cell_defs)

lemma cell_types:
  "map (map_option fst \<circ> parse_cell) nb_cells_lines =
     [Some Markdown, Some Markdown, Some Code, Some Markdown, Some Markdown,
      Some Markdown, Some Markdown, Some Markdown, Some Markdown, Some Markdown]"
  by (simp add: nb_cells_lines_def parse_nb_cells)

lemma source_line_counts:
  "source_line_count Code nb_cells_lines = 14"
  "source_line_count Markdown nb_cells_lines = 139"
  by (simp_all add: source_line_count_def nb_cells_lines_def parse_nb_cells nb_lengths)

text \<open>The lines the data of the report is read from.\<close>

lemma general_table_read:
  "read_lines general_row (file_lines 173 176) = Some tbl_general_results"
  by (simp add: file_lines_def report_ipynb_def nb_cells_lines_def nb_defs json_defs
      general_row_def table_defs tbl_general_results_def)

lemma detail_table_read:
  "read_lines detail_row (file_lines 183 186) = Some tbl_detail_results"
  by (simp add: file_lines_def report_ipynb_def nb_cells_lines_def nb_defs json_defs
      detail_row_def table_defs tbl_detail_results_def)

lemma ner_labels_read:
  "read_lines bullet_term (file_lines 68 76) = Some ner_labels"
  by (simp add: file_lines_def report_ipynb_def nb_cells_lines_def nb_defs json_defs
      bullet_term_def ner_labels_def)

lemma code_cell_read: "code_cell_statements nb_cell_2 = Some config_cell"
  by (simp add: nb_cell_2_def code_cell_statements_def parse_cell_defs json_defs stmt_defs
      config_cell_def)

lemma code_cell_lines: "take 14 (drop 6 nb_cell_2) = file_lines 23 36"
  by (simp add: file_lines_def report_ipynb_def nb_cells_lines_def nb_defs)

text \<open>Lines the reader of statements does not accept.\<close>

lemma parse_stmt_refuses:
  "parse_stmt ''if DPI > 0:'' = None"
  "parse_stmt ''for f in files:'' = None"
  "parse_stmt ''df = pd.read_csv(path)'' = None"
  "parse_stmt ''plt.show()'' = None"
  "parse_stmt ''DPI = 2 * 400'' = None"
  by (simp_all add: stmt_defs)

lemma cell_images_eval:
  "cell_images nb_cell_0 = Some []"
  "cell_images nb_cell_1 = Some []"
  "cell_images nb_cell_2 = Some []"
  "cell_images nb_cell_3 =
     Some [MarkdownImage ''images/2023-09-18-23-06-37.png'',
           MarkdownImage ''images/2023-09-19-00-30-13.png'']"
  "cell_images nb_cell_4 = Some []"
  "cell_images nb_cell_5 = Some []"
  "cell_images nb_cell_6 = Some []"
  "cell_images nb_cell_7 = Some []"
  "cell_images nb_cell_8 = Some []"
  "cell_images nb_cell_9 = Some []"
  by (simp_all add: nb_defs image_defs)

section \<open>Consistency of the reported metrics\<close>

lemma entity_categories_eq: "entity_categories = [''LOC'', ''MISC'', ''ORG'', ''PER'']"
  by (simp add: entity_categories_def tbl_detail_results_def)

text \<open>
  C1.  In the general results table (lines 173 to 176 of the file) the reported F1,
  80.23 percent, is the harmonic mean \<open>2 * P * R / (P + R)\<close> of the reported precision,
  78.03, and recall, 82.56, computed on exact rationals and rounded to two decimals.
  The exact value lies strictly within half a unit of the last decimal, so every
  round-to-nearest convention gives 80.23.
\<close>

theorem general_f1_is_harmonic_mean:
  "read_lines general_row (file_lines 173 176) = Some tbl_general_results \<and>
   map_of tbl_general_results ''Precision'' = Some 78.03 \<and>
   map_of tbl_general_results ''Recall'' = Some 82.56 \<and>
   map_of tbl_general_results ''F1'' = Some 80.23 \<and>
   round_to 2 (F1 78.03 82.56) = 80.23 \<and>
   \<bar>F1 78.03 82.56 - 80.23\<bar> < 1 / 200"
  using general_table_read
  by (simp add: tbl_general_results_def round_to_def F1_def floor_eq_iff)

text \<open>
  C8.  In every class row of the detailed table (LOC, MISC, ORG, PER; lines 183 to 186
  of the file) the reported F1-Score is the harmonic mean of the row's Precision and
  Recall, computed on exact rationals and rounded to two decimals.
\<close>

theorem detail_f1_is_harmonic_mean:
  "read_lines detail_row (file_lines 183 186) = Some tbl_detail_results \<and>
   map cls tbl_detail_results = [''LOC'', ''MISC'', ''ORG'', ''PER''] \<and>
   list_all row_consistent tbl_detail_results"
  using detail_table_read
  by (simp add: tbl_detail_results_def row_consistent_def round_to_def F1_def floor_eq_iff)

text \<open>The discussion of ORG, the third bullet of cell 8, on line 204 of the file.\<close>

lemma org_discussion:
  "line_says 204 ''- **Organizations (ORG)** is not very high at 0.63''"
  "line_says 204 ''as the lowest precision and F1 score among the categories''"
  by (simp_all add: line_says_def file_lines_def report_ipynb_def nb_cells_lines_def nb_defs
      json_defs)

text \<open>
  C9.  ORG has the strictly lowest Precision (0.59) and the strictly lowest F1-Score
  (0.63) of the four classes of the detailed table: each of the three other rows is
  strictly above it in both columns.  The discussion (line 204 of the file) says so of
  ORG: "the lowest precision and F1 score among the categories", at 0.63.
\<close>

theorem org_lowest_precision_and_f1:
  "filter (\<lambda>r. cls r = ''ORG'') tbl_detail_results =
     [\<lparr>cls = ''ORG'', precision = 0.59, recall = 0.67, f1_score = 0.63, support = 1341\<rparr>] \<and>
   length (other_rows ''ORG'' tbl_detail_results) = 3 \<and>
   list_all (\<lambda>r. 0.59 < precision r \<and> 0.63 < f1_score r)
     (other_rows ''ORG'' tbl_detail_results) \<and>
   line_says 204 ''- **Organizations (ORG)** is not very high at 0.63'' \<and>
   line_says 204 ''as the lowest precision and F1 score among the categories''"
  using org_discussion by (simp add: tbl_detail_results_def other_rows_def)

section \<open>The label scheme\<close>

text \<open>
  C6.  Each of the nine labels the report lists (lines 68 to 76 of the file) is \<open>O\<close>, or
  a \<open>B-\<close> or \<open>I-\<close> prefix in front of one of the four entity categories PER, LOC, ORG
  and MISC; and for each category both the \<open>B-\<close> and the \<open>I-\<close> label are in the list.
\<close>

theorem ner_labels_follow_bio:
  "read_lines bullet_term (file_lines 68 76) = Some ner_labels \<and>
   length ner_labels = 9 \<and>
   set entity_categories = {''PER'', ''LOC'', ''ORG'', ''MISC''} \<and>
   list_all bio_label ner_labels \<and>
   list_all both_variants_listed entity_categories"
  using ner_labels_read
  by (auto simp add: ner_labels_def bio_label_def both_variants_listed_def
      entity_categories_eq)

section \<open>The images\<close>

text \<open>
  C7.  The document references two images, both in cell 3, and each by a relative path:
  the target of each image link starts with the directory \<open>images/\<close> and is neither an
  absolute path nor a URL.  No image is brought in any other way.
\<close>

theorem images_referenced_by_relative_path:
  "document_images =
     Some [MarkdownImage ''images/2023-09-18-23-06-37.png'',
           MarkdownImage ''images/2023-09-19-00-30-13.png''] \<and>
   list_all relative_under_images
     [MarkdownImage ''images/2023-09-18-23-06-37.png'',
      MarkdownImage ''images/2023-09-19-00-30-13.png'']"
  by (simp add: document_images_def nb_cells_lines_def cell_images_eval)

section \<open>The size of the file\<close>

lemma config_cell_kinds:
  "map kind_of config_cell =
     [DisplaySetting, ModuleImport, ModuleImport, ModuleImport, ModuleImport,
      ModuleImport, DisplaySetting, ConstantBinding, DisplaySetting]"
  by (simp add: config_cell_def)

text \<open>
  C5, as stated, gives the file 241 lines.  The file has 240.
\<close>

theorem report_has_not_241_lines: "length report_ipynb \<noteq> 241"
  by (simp add: report_length)

text \<open>
  C5, amended.  The file totals 240 lines, none of which is systems logic: 14 are the
  source lines of the one code cell, which read as the nine statements of
  \<open>config_cell\<close> (display settings, imports and one constant) and five blank lines;
  139 are source lines of the nine markdown cells; the other 87 are the JSON structure
  and the metadata of the notebook.
\<close>

theorem report_line_budget:
  "length report_ipynb = 240 \<and>
   map (map_option fst \<circ> parse_cell) nb_cells_lines =
     [Some Markdown, Some Markdown, Some Code, Some Markdown, Some Markdown,
      Some Markdown, Some Markdown, Some Markdown, Some Markdown, Some Markdown] \<and>
   source_line_count Code nb_cells_lines = 14 \<and>
   source_line_count Markdown nb_cells_lines = 139 \<and>
   length report_ipynb - (14 + 139) = 87 \<and>
   code_cell_statements nb_cell_2 = Some config_cell \<and>
   length config_cell = 9 \<and>
   list_all (\<lambda>c. kind_of c \<noteq> OtherStatement) config_cell"
  using cell_types code_cell_read
  by (simp add: report_length source_line_counts) (simp add: config_cell_def)

section \<open>What the code cell is\<close>

text \<open>
  C2, as stated, makes every statement of the cell a display setting.  The second
  statement, \<^verbatim>\<open>import pandas as pd\<close>, is an import.
\<close>

theorem import_is_no_display_setting:
  "config_cell ! 1 = Import ''pandas'' ''pd'' \<and> kind_of (config_cell ! 1) \<noteq> DisplaySetting"
  by (simp add: config_cell_def)

text \<open>
  C2, amended.  The notebook has one code cell.  Each of its nine statements is a
  display setting (the figure format of the inline backend, the font family, the inline
  backend itself), a module import, or the binding of the integer constant \<open>DPI\<close>.  The
  cell has no control flow, no call and no data processing: every non-blank line of its
  source reads as one of the six straight-line statement forms, whose right-hand sides
  are literals.
\<close>

theorem config_cell_statement_kinds:
  "filter (\<lambda>c. map_option fst (parse_cell c) = Some Code) nb_cells_lines = [nb_cell_2] \<and>
   parse_cell nb_cell_2 = Some (Code, file_lines 23 36) \<and>
   code_cell_statements nb_cell_2 = Some config_cell \<and>
   map kind_of config_cell =
     [DisplaySetting, ModuleImport, ModuleImport, ModuleImport, ModuleImport,
      ModuleImport, DisplaySetting, ConstantBinding, DisplaySetting]"
  using code_cell_read config_cell_kinds code_cell_lines
  by (simp add: nb_cells_lines_def parse_nb_cells)

section \<open>Running the code cell\<close>


lemma import_chain_simps [simp]:
  "import_chain ''pandas'' = [''pandas'']"
  "import_chain ''numpy'' = [''numpy'']"
  "import_chain ''matplotlib.pyplot'' = [''matplotlib'', ''matplotlib.pyplot'']"
  "import_chain ''matplotlib.image'' = [''matplotlib'', ''matplotlib.image'']"
  "import_chain ''seaborn'' = [''seaborn'']"
  by (simp_all add: import_chain_def)

lemma top_package_simps [simp]:
  "top_package ''pandas'' = ''pandas''"
  "top_package ''numpy'' = ''numpy''"
  "top_package ''matplotlib'' = ''matplotlib''"
  "top_package ''matplotlib.pyplot'' = ''matplotlib''"
  "top_package ''matplotlib.image'' = ''matplotlib''"
  "top_package ''seaborn'' = ''seaborn''"
  by (simp_all add: top_package_def)


text \<open>
  Where loading pandas raises, for whatever reason (the package is missing, or one of
  its own imports fails), the cell raises that exception at its first import, and has
  bound no name.
\<close>

lemma config_cell_raises_what_pandas_raises:
  assumes "env ''pandas'' = Some e"
  shows "exec_cell env config_cell s =
    (Some e, s\<lparr>config := (config s)((''InlineBackend'', ''figure_formats'') \<mapsto> [''svg''])\<rparr>)"
  using assms by (simp add: config_cell_def load_def)






text \<open>
  C10.  The cell is idempotent: running it a second time, from the session the first
  run left, ends as the first run did, in the same session (figure formats, font
  family, \<open>DPI\<close> and all the rest), for every initial session and every environment,
  also one in which an import fails.
\<close>

theorem config_cell_idempotent:
  "exec_cell env config_cell (snd (exec_cell env config_cell s)) = exec_cell env config_cell s"
  by (simp add: config_cell_def has_rcParams_def load_def split: option.splits)

end
